theory Spec2Isabelle
  imports Main "HOL-Library.Sublist"
begin

section \<open>Values and errors\<close>

text \<open>
  The two modules are Python. Exceptions are values: an operation that mutates an object
  returns the exception it raised, if any, together with the object as the exception left
  it, so that a failure in the middle of a method shows the writes made before it.
  \<open>Unsupported\<close> is no exception of Python: it marks an input that the model does not cover.
\<close>

datatype error =
    KeyError string
  | TypeError
  | ValueError
  | Unsupported

text \<open>
  The scalar values the two modules handle: \<open>None\<close>, integers and strings. \<open>py_str\<close> is
  Python's \<open>str()\<close> on them (and what the conversion \<open>%s\<close> prints).
\<close>

datatype pyval = PNone | PInt int | PStr string

definition digit_char :: "nat \<Rightarrow> char" where
  "digit_char n = ''0123456789'' ! (n mod 10)"

fun dec_nat :: "nat \<Rightarrow> string" where
  "dec_nat n = (if n < 10 then [digit_char n] else dec_nat (n div 10) @ [digit_char n])"

declare dec_nat.simps [simp del]

definition dec_int :: "int \<Rightarrow> string" where
  "dec_int i = (if i < 0 then CHR ''-'' # dec_nat (nat (- i)) else dec_nat (nat i))"

fun py_str :: "pyval \<Rightarrow> string" where
  "py_str PNone = ''None''"
| "py_str (PInt i) = dec_int i"
| "py_str (PStr s) = s"

section \<open>libs/entries/base.py: the entry base class\<close>

text \<open>
  A time tuple is the nine integers of \<open>time.localtime\<close>. A metadata value is a scalar or
  a time tuple (\<open>setTime\<close> stores the tuple itself under \<open>timetuple\<close>).
\<close>

record struct_time =
  tm_year :: int
  tm_mon :: int
  tm_mday :: int
  tm_hour :: int
  tm_min :: int
  tm_sec :: int
  tm_wday :: int
  tm_yday :: int
  tm_isdst :: int

datatype mvalue = Val pyval | TimeTuple struct_time

definition CONTENT_KEY :: string where
  "CONTENT_KEY = ''content''"

text \<open>
  A Python dictionary whose key order is observable (\<open>keys()\<close> returns a list) is an
  association list with pairwise distinct keys: \<open>d[k] = v\<close> replaces the value of a key
  that is present and adds the key otherwise, \<open>del d[k]\<close> removes the key. The order
  of the list stands for the order of the dictionary, which Python leaves open; nothing
  below depends on it.
\<close>

type_synonym dict = "(string \<times> mvalue) list"

definition dict_ok :: "dict \<Rightarrow> bool" where
  "dict_ok d = distinct (map fst d)"

fun dict_set :: "dict \<Rightarrow> string \<Rightarrow> mvalue \<Rightarrow> dict" where
  "dict_set [] k v = [(k, v)]"
| "dict_set ((k', v') # d) k v = (if k' = k then (k, v) # d else (k', v') # dict_set d k v)"

definition dict_has :: "dict \<Rightarrow> string \<Rightarrow> bool" where
  "dict_has d k = (k \<in> set (map fst d))"

definition dict_del :: "dict \<Rightarrow> string \<Rightarrow> dict" where
  "dict_del d k = filter (\<lambda>p. fst p \<noteq> k) d"

definition dict_get :: "dict \<Rightarrow> string \<Rightarrow> mvalue \<Rightarrow> mvalue" where
  "dict_get d k dflt = (case map_of d k of None \<Rightarrow> dflt | Some v \<Rightarrow> v)"

text \<open>\<open>EntryBase\<close>: the content slot \<open>_data\<close> and the dictionary \<open>_metadata\<close>.\<close>

record entry =
  e_data :: pyval
  e_metadata :: dict

definition EntryBase_init :: entry where
  "EntryBase_init = \<lparr>e_data = PNone, e_metadata = []\<rparr>"

definition getData :: "entry \<Rightarrow> string" where
  "getData e = py_str (e_data e)"

definition setData :: "entry \<Rightarrow> pyval \<Rightarrow> entry" where
  "setData e d = e\<lparr>e_data := d\<rparr>"

definition getId :: "entry \<Rightarrow> string" where
  "getId e = []"

text \<open>\<open>__getitem__(self, key, default=None)\<close>; a subscript \<open>e[key]\<close> passes no default.\<close>

definition getitem :: "entry \<Rightarrow> string \<Rightarrow> mvalue \<Rightarrow> mvalue" where
  "getitem e key dflt =
     (if key = CONTENT_KEY then Val (PStr (getData e))
      else dict_get (e_metadata e) key dflt)"

definition subscript :: "entry \<Rightarrow> string \<Rightarrow> mvalue" where
  "subscript e key = getitem e key (Val PNone)"

definition setitem :: "entry \<Rightarrow> string \<Rightarrow> mvalue \<Rightarrow> entry" where
  "setitem e key v = e\<lparr>e_metadata := dict_set (e_metadata e) key v\<rparr>"

text \<open>\<open>__delitem__\<close>: \<open>del self._metadata[key]\<close> raises \<open>KeyError\<close> on a missing key.\<close>

definition delitem :: "entry \<Rightarrow> string \<Rightarrow> error option \<times> entry" where
  "delitem e key =
     (if dict_has (e_metadata e) key
      then (None, e\<lparr>e_metadata := dict_del (e_metadata e) key\<rparr>)
      else (Some (KeyError key), e))"

text \<open>\<open>has_key\<close> answers 1 for the reserved key and the dictionary's truth value otherwise.\<close>

definition has_key :: "entry \<Rightarrow> string \<Rightarrow> bool" where
  "has_key e key = (if key = CONTENT_KEY then True else dict_has (e_metadata e) key)"

definition keys :: "entry \<Rightarrow> string list" where
  "keys e = map fst (e_metadata e) @ [CONTENT_KEY]"

text \<open>
  \<open>setTime\<close> is nine assignments in a row. \<open>time.strftime\<close> belongs to the Python
  library and depends on the locale and the time zone of the process, so it is a parameter
  of the model; it may raise (\<open>ValueError\<close> on a tuple out of range), and then the
  assignments made so far stay.
\<close>

type_synonym strftime_fn = "string \<Rightarrow> struct_time \<Rightarrow> error + string"

definition then_do ::
  "error option \<times> entry \<Rightarrow> (entry \<Rightarrow> error option \<times> entry) \<Rightarrow> error option \<times> entry" where
  "then_do r f = (case r of (None, e) \<Rightarrow> f e | (Some err, e) \<Rightarrow> (Some err, e))"

definition set_strftime ::
  "strftime_fn \<Rightarrow> struct_time \<Rightarrow> string \<Rightarrow> string \<Rightarrow> entry \<Rightarrow> error option \<times> entry" where
  "set_strftime strftime tt key fmt e =
     (case strftime fmt tt of
        Inl err \<Rightarrow> (Some err, e)
      | Inr s \<Rightarrow> (None, setitem e key (Val (PStr s))))"

definition setTime :: "strftime_fn \<Rightarrow> entry \<Rightarrow> struct_time \<Rightarrow> error option \<times> entry" where
  "setTime strftime e timeTuple =
     then_do (then_do (then_do (then_do (then_do (then_do (then_do (then_do
       (None, setitem e ''timetuple'' (TimeTuple timeTuple))
       (set_strftime strftime timeTuple ''ti'' ''%H:%M''))
       (set_strftime strftime timeTuple ''mo'' ''%b''))
       (set_strftime strftime timeTuple ''mo_num'' ''%m''))
       (set_strftime strftime timeTuple ''da'' ''%d''))
       (set_strftime strftime timeTuple ''yr'' ''%Y''))
       (set_strftime strftime timeTuple ''fulltime'' ''%Y%m%d%H%M%S''))
       (set_strftime strftime timeTuple ''w3cdate'' ''%Y-%m-%dT%H:%M:%S%Z''))
       (set_strftime strftime timeTuple ''date'' ''%a, %d %b %Y'')"

text \<open>A sequence of metadata writes \<open>e[k] = v\<close>, in order.\<close>

definition setitems :: "entry \<Rightarrow> (string \<times> mvalue) list \<Rightarrow> entry" where
  "setitems e ws = foldl (\<lambda>e' (k, v). setitem e' k v) e ws"

subsection \<open>A sample \<open>strftime\<close>\<close>

text \<open>
  For evaluating \<open>setTime\<close> on concrete time tuples: the directives that \<open>setTime\<close> uses,
  rendered as the C locale does, with the names of the time zone given. Any other directive,
  and a tuple out of range, is outside this sample (\<open>Unsupported\<close>).
\<close>

definition two_digits :: "int \<Rightarrow> string" where
  "two_digits n = [digit_char (nat n div 10), digit_char (nat n)]"

definition month_abbr :: "string list" where
  "month_abbr = [''Jan'', ''Feb'', ''Mar'', ''Apr'', ''May'', ''Jun'',
                 ''Jul'', ''Aug'', ''Sep'', ''Oct'', ''Nov'', ''Dec'']"

definition day_abbr :: "string list" where
  "day_abbr = [''Mon'', ''Tue'', ''Wed'', ''Thu'', ''Fri'', ''Sat'', ''Sun'']"

definition time_in_range :: "struct_time \<Rightarrow> bool" where
  "time_in_range t =
     (1900 \<le> tm_year t \<and> tm_year t \<le> 9999 \<and> 1 \<le> tm_mon t \<and> tm_mon t \<le> 12 \<and>
      1 \<le> tm_mday t \<and> tm_mday t \<le> 31 \<and> 0 \<le> tm_hour t \<and> tm_hour t \<le> 23 \<and>
      0 \<le> tm_min t \<and> tm_min t \<le> 59 \<and> 0 \<le> tm_sec t \<and> tm_sec t \<le> 61 \<and>
      0 \<le> tm_wday t \<and> tm_wday t \<le> 6 \<and> 1 \<le> tm_yday t \<and> tm_yday t \<le> 366 \<and>
      - 1 \<le> tm_isdst t \<and> tm_isdst t \<le> 1)"

definition directive :: "string \<times> string \<Rightarrow> struct_time \<Rightarrow> char \<Rightarrow> string option" where
  "directive tzname t c =
     (if c = CHR ''H'' then Some (two_digits (tm_hour t))
      else if c = CHR ''M'' then Some (two_digits (tm_min t))
      else if c = CHR ''S'' then Some (two_digits (tm_sec t))
      else if c = CHR ''m'' then Some (two_digits (tm_mon t))
      else if c = CHR ''d'' then Some (two_digits (tm_mday t))
      else if c = CHR ''Y'' then Some (dec_int (tm_year t))
      else if c = CHR ''b'' then Some (month_abbr ! nat (tm_mon t - 1))
      else if c = CHR ''a'' then Some (day_abbr ! nat (tm_wday t))
      else if c = CHR ''Z'' then
        Some (if tm_isdst t < 0 then [] else if tm_isdst t = 0 then fst tzname else snd tzname)
      else if c = CHR ''%'' then Some ''%''
      else None)"

fun expand :: "string \<times> string \<Rightarrow> struct_time \<Rightarrow> string \<Rightarrow> error + string" where
  "expand tzname t [] = Inr []"
| "expand tzname t [c] = (if c = CHR ''%'' then Inl Unsupported else Inr [c])"
| "expand tzname t (c # d # cs) =
     (if c = CHR ''%'' then
        (case directive tzname t d of
           None \<Rightarrow> Inl Unsupported
         | Some s \<Rightarrow> (case expand tzname t cs of Inl err \<Rightarrow> Inl err | Inr r \<Rightarrow> Inr (s @ r)))
      else (case expand tzname t (d # cs) of Inl err \<Rightarrow> Inl err | Inr r \<Rightarrow> Inr (c # r)))"

definition strftime_posix :: "string \<times> string \<Rightarrow> strftime_fn" where
  "strftime_posix tzname fmt t = (if time_in_range t then expand tzname t fmt else Inl Unsupported)"

definition sample_time_a :: struct_time where
  "sample_time_a = \<lparr>tm_year = 2004, tm_mon = 3, tm_mday = 9, tm_hour = 14, tm_min = 5, tm_sec = 7,
         tm_wday = 1, tm_yday = 69, tm_isdst = 0\<rparr>"

definition sample_time_b :: struct_time where
  "sample_time_b = \<lparr>tm_year = 2011, tm_mon = 11, tm_mday = 5, tm_hour = 9, tm_min = 30, tm_sec = 0,
         tm_wday = 5, tm_yday = 309, tm_isdst = 0\<rparr>"

definition sample_strftime :: strftime_fn where
  "sample_strftime = strftime_posix (''UTC'', ''UTC'')"

subsection \<open>What \<open>setTime\<close> is expected to store\<close>

text \<open>
  \<open>strftime_succeeds\<close>: none of the eight calls of \<open>setTime\<close> raises. \<open>time_fields\<close>:
  the nine bindings, the tuple itself and the eight strings derived from it.
\<close>

definition strftime_str :: "strftime_fn \<Rightarrow> string \<Rightarrow> struct_time \<Rightarrow> mvalue" where
  "strftime_str strftime fmt t = Val (PStr (case strftime fmt t of Inr s \<Rightarrow> s | Inl err \<Rightarrow> []))"

definition strftime_succeeds :: "strftime_fn \<Rightarrow> struct_time \<Rightarrow> bool" where
  "strftime_succeeds strftime t =
     list_all (\<lambda>fmt. case strftime fmt t of Inr s \<Rightarrow> True | Inl err \<Rightarrow> False)
       [''%H:%M'', ''%b'', ''%m'', ''%d'', ''%Y'', ''%Y%m%d%H%M%S'',
        ''%Y-%m-%dT%H:%M:%S%Z'', ''%a, %d %b %Y'']"

definition time_fields :: "strftime_fn \<Rightarrow> struct_time \<Rightarrow> (string \<rightharpoonup> mvalue)" where
  "time_fields strftime t =
     [''timetuple'' \<mapsto> TimeTuple t,
      ''ti'' \<mapsto> strftime_str strftime ''%H:%M'' t,
      ''mo'' \<mapsto> strftime_str strftime ''%b'' t,
      ''mo_num'' \<mapsto> strftime_str strftime ''%m'' t,
      ''da'' \<mapsto> strftime_str strftime ''%d'' t,
      ''yr'' \<mapsto> strftime_str strftime ''%Y'' t,
      ''fulltime'' \<mapsto> strftime_str strftime ''%Y%m%d%H%M%S'' t,
      ''w3cdate'' \<mapsto> strftime_str strftime ''%Y-%m-%dT%H:%M:%S%Z'' t,
      ''date'' \<mapsto> strftime_str strftime ''%a, %d %b %Y'' t]"

section \<open>Pyblosxom/plugins/readmore.py: the summary splitter\<close>

subsection \<open>The fragment of \<open>re\<close> that the plugin uses\<close>

text \<open>
  The plugin builds one pattern, \<^verbatim>\<open>(BREAKPOINT)(.*?)(<[ ]*?[^/].+|[\n])\<close>, and calls
  \<open>re.search\<close> and \<open>re.sub\<close> with it. The model has the constructs of that pattern:
  literal text, one character of a class, a lazy star and a greedy plus of a class, sequence,
  alternative and numbered group. A class is one character, any character but one, or the
  dot (any character but the newline; the plugin passes no flag).

  \<open>rmatch\<close> is the backtracking matcher: from a position (the offset, the text from there on
  and the spans of the groups closed so far) it gives every way the expression matches, in
  the order the engine tries them: a lazy star the shortest run first, a greedy one the
  longest first, an alternative its left branch first. The first element is the engine's
  match.
\<close>

abbreviation newline :: char where
  "newline \<equiv> CHR 0x0A"

datatype cclass = Only char | Except char | Dot

fun cc_match :: "cclass \<Rightarrow> char \<Rightarrow> bool" where
  "cc_match (Only c) x = (x = c)"
| "cc_match (Except c) x = (x \<noteq> c)"
| "cc_match Dot x = (x \<noteq> newline)"

datatype regex =
    Lit string
  | One cclass
  | LazyStar cclass
  | GreedyPlus cclass
  | Seq regex regex
  | Alt regex regex
  | Group nat regex

type_synonym spans = "(nat \<times> nat \<times> nat) list"
type_synonym mstate = "nat \<times> string \<times> spans"

fun lazy_star :: "cclass \<Rightarrow> nat \<Rightarrow> string \<Rightarrow> (nat \<times> string) list" where
  "lazy_star c i [] = [(i, [])]"
| "lazy_star c i (x # xs) = (i, x # xs) # (if cc_match c x then lazy_star c (Suc i) xs else [])"

fun greedy_star :: "cclass \<Rightarrow> nat \<Rightarrow> string \<Rightarrow> (nat \<times> string) list" where
  "greedy_star c i [] = [(i, [])]"
| "greedy_star c i (x # xs) = (if cc_match c x then greedy_star c (Suc i) xs else []) @ [(i, x # xs)]"

fun rmatch :: "regex \<Rightarrow> mstate \<Rightarrow> mstate list" where
  "rmatch (Lit l) (i, s, g) = (if prefix l s then [(i + length l, drop (length l) s, g)] else [])"
| "rmatch (One c) (i, s, g) =
     (case s of [] \<Rightarrow> [] | x # xs \<Rightarrow> if cc_match c x then [(Suc i, xs, g)] else [])"
| "rmatch (LazyStar c) (i, s, g) = map (\<lambda>(j, r). (j, r, g)) (lazy_star c i s)"
| "rmatch (GreedyPlus c) (i, s, g) =
     (case s of [] \<Rightarrow> []
      | x # xs \<Rightarrow> if cc_match c x then map (\<lambda>(j, r). (j, r, g)) (greedy_star c (Suc i) xs) else [])"
| "rmatch (Seq a b) st = concat (map (rmatch b) (rmatch a st))"
| "rmatch (Alt a b) st = rmatch a st @ rmatch b st"
| "rmatch (Group n a) (i, s, g) = map (\<lambda>(j, r, g'). (j, r, (n, i, j) # g')) (rmatch a (i, s, g))"

text \<open>
  A match object is the searched string and the spans of the groups (group 0 is the whole
  match). \<open>start(n)\<close> is \<open>-1\<close> and \<open>group(n)\<close> is \<open>None\<close> for a group that took no part in
  the match. \<open>re.search\<close> tries the start positions from the left, the end of the string
  included, and stops at the first where the pattern matches.
\<close>

record match =
  m_string :: string
  m_spans :: spans

fun search_from :: "regex \<Rightarrow> nat \<Rightarrow> string \<Rightarrow> spans option" where
  "search_from r i [] =
     (case rmatch r (i, [], []) of
        [] \<Rightarrow> None
      | (j, rest, g) # others \<Rightarrow> Some ((0, i, j) # g))"
| "search_from r i (x # xs) =
     (case rmatch r (i, x # xs, []) of
        [] \<Rightarrow> search_from r (Suc i) xs
      | (j, rest, g) # others \<Rightarrow> Some ((0, i, j) # g))"

definition re_search :: "regex \<Rightarrow> string \<Rightarrow> match option" where
  "re_search r s = map_option (\<lambda>g. \<lparr>m_string = s, m_spans = g\<rparr>) (search_from r 0 s)"

definition match_start :: "match \<Rightarrow> nat \<Rightarrow> int" where
  "match_start m n = (case map_of (m_spans m) n of None \<Rightarrow> - 1 | Some (b, e) \<Rightarrow> int b)"

definition match_group :: "match \<Rightarrow> nat \<Rightarrow> pyval" where
  "match_group m n =
     (case map_of (m_spans m) n of
        None \<Rightarrow> PNone
      | Some (b, e) \<Rightarrow> PStr (take (e - b) (drop b (m_string m))))"

text \<open>
  \<open>re.sub(pattern, "", string)\<close>: the matches are found from the left without overlap and cut
  out. While \<open>skip\<close> is positive the scan is inside a match; an empty match removes nothing
  and the scan moves on by one character.
\<close>

fun sub_scan :: "regex \<Rightarrow> nat \<Rightarrow> nat \<Rightarrow> string \<Rightarrow> string" where
  "sub_scan r i skip [] = []"
| "sub_scan r i (Suc skip) (x # xs) = sub_scan r (Suc i) skip xs"
| "sub_scan r i 0 (x # xs) =
     (case rmatch r (i, x # xs, []) of
        [] \<Rightarrow> x # sub_scan r (Suc i) 0 xs
      | (j, rest, g) # others \<Rightarrow>
          if j \<le> i then x # sub_scan r (Suc i) 0 xs else sub_scan r (Suc i) (j - Suc i) xs)"

definition re_sub_blank :: "regex \<Rightarrow> string \<Rightarrow> string" where
  "re_sub_blank r s = sub_scan r 0 0 s"

text \<open>
  The breakpoint is configuration text that the plugin pastes into the pattern. Text without
  any of the characters that are special in a pattern stands for itself; a breakpoint with
  such a character is another pattern, which this model does not parse (\<open>None\<close>).
\<close>

definition re_special :: "char \<Rightarrow> bool" where
  "re_special c = (c \<in> set [CHR ''.'', CHR ''^'', CHR ''$'', CHR ''*'', CHR ''+'', CHR ''?'',
      CHR ''{'', CHR ''}'', CHR ''['', CHR '']'', CHR 0x5C, CHR ''|'', CHR ''('', CHR '')''])"

definition re_compile_plain :: "string \<Rightarrow> regex option" where
  "re_compile_plain p = (if list_ex re_special p then None else Some (Lit p))"

text \<open>The slice \<open>s[:i]\<close>; a negative \<open>i\<close> counts from the end.\<close>

definition py_slice_to :: "string \<Rightarrow> int \<Rightarrow> string" where
  "py_slice_to s i = (if i < 0 then take (length s - nat (- i)) s else take (nat i) s)"

subsection \<open>The plugin\<close>

definition READMORE_BREAKPOINT :: string where
  "READMORE_BREAKPOINT = ''BREAK''"

definition READMORE_TEMPLATE :: string where
  "READMORE_TEMPLATE = ''<p class=\"readmore\"><a href=\"%(url)s\">read more after the break...</a></p>''"

text \<open>
  The pattern of \<open>cb_story\<close>: group 1 the breakpoint, group 2 the shortest run up to the
  delimiter, group 3 the delimiter, which is \<open><\<close>, spaces, a character that is not a slash
  and the rest of the line (at least one character), or else a newline.
\<close>

definition opening_tag :: regex where
  "opening_tag =
     Seq (Lit ''<'') (Seq (LazyStar (Only CHR '' '')) (Seq (One (Except CHR ''/'')) (GreedyPlus Dot)))"

definition delimiter :: regex where
  "delimiter = Alt opening_tag (One (Only newline))"

definition breakpoint_pattern :: "regex \<Rightarrow> regex" where
  "breakpoint_pattern bp = Seq (Group 1 bp) (Seq (Group 2 (LazyStar Dot)) (Group 3 delimiter))"

text \<open>
  The configuration, the request data and the entry are dictionaries from strings to values;
  \<open>d[k]\<close> raises \<open>KeyError\<close> on a missing key and \<open>d.get(k, default)\<close> does not. The string
  operator \<open>%\<close> with a dictionary on its right (the rendering of the link template) belongs
  to Python and is a parameter of the model; it may raise.
\<close>

type_synonym pydict = "string \<rightharpoonup> pyval"
type_synonym format_fn = "string \<Rightarrow> pydict \<Rightarrow> error + string"

definition dict_get_default :: "pydict \<Rightarrow> string \<Rightarrow> pyval \<Rightarrow> pyval" where
  "dict_get_default d k dflt = (case d k of None \<Rightarrow> dflt | Some v \<Rightarrow> v)"

text \<open>
  \<open>verify_installation\<close> returns \<open>True\<close> whatever the configuration holds; it hands one
  message for each of the two optional properties that is missing to \<open>pwrap\<close> (of
  \<open>Pyblosxom.tools\<close>, which prints it). The model returns the messages.
\<close>

definition verify_installation :: "pydict \<Rightarrow> bool \<times> string list" where
  "verify_installation config =
     (True,
      map (\<lambda>mem. ''missing optional config property '' @ [CHR 0x27] @ mem @ [CHR 0x27])
        (filter (\<lambda>mem. config mem = None) [''readmore_template'', ''readmore_breakpoint'']))"

text \<open>
  Lines 222 to 235 of \<open>cb_story\<close>: the link of the listing. The lookups and the rendering are
  in the order of the source, so the first that fails decides the exception.
\<close>

definition render_link :: "format_fn \<Rightarrow> pyval \<Rightarrow> pydict \<Rightarrow> pydict \<Rightarrow> pydict \<Rightarrow> error + string" where
  "render_link fmt template config data entry =
     (case config ''base_url'' of
        None \<Rightarrow> Inl (KeyError ''base_url'')
      | Some base_url \<Rightarrow>
          (case entry ''file_path'' of
             None \<Rightarrow> Inl (KeyError ''file_path'')
           | Some file_path \<Rightarrow>
               let flavour = dict_get_default data ''flavour''
                               (dict_get_default config ''default_flavour'' (PStr ''html''));
                   url = py_str base_url @ ''/'' @ py_str file_path @ ''.'' @ py_str flavour
               in (case template of
                     PStr t \<Rightarrow>
                       fmt t [''url'' \<mapsto> PStr url, ''base_url'' \<mapsto> base_url,
                              ''file_path'' \<mapsto> file_path, ''flavour'' \<mapsto> flavour]
                   | PNone \<Rightarrow> Inl TypeError
                   | PInt n \<Rightarrow> Inl TypeError)))"

text \<open>
  \<open>cb_story\<close> changes the entry in place; the model returns the exception raised, if any, and
  the entry as the call leaves it.
\<close>

definition cb_story :: "format_fn \<Rightarrow> pydict \<Rightarrow> pydict \<Rightarrow> pydict \<Rightarrow> error option \<times> pydict" where
  "cb_story fmt config data entry =
     (case entry ''body'' of
        None \<Rightarrow> (None, entry)
      | Some body \<Rightarrow>
          let breakpoint = dict_get_default config ''readmore_breakpoint'' (PStr READMORE_BREAKPOINT);
              template = dict_get_default config ''readmore_template'' (PStr READMORE_TEMPLATE)
          in (case breakpoint of
                PNone \<Rightarrow> (Some TypeError, entry)
              | PInt n \<Rightarrow> (Some TypeError, entry)
              | PStr bp \<Rightarrow>
                  (case re_compile_plain bp of
                     None \<Rightarrow> (Some Unsupported, entry)
                   | Some r \<Rightarrow>
                       (case body of
                          PNone \<Rightarrow> (Some TypeError, entry)
                        | PInt n \<Rightarrow> (Some TypeError, entry)
                        | PStr b \<Rightarrow>
                            (case re_search (breakpoint_pattern r) b of
                               None \<Rightarrow> (None, entry)
                             | Some m \<Rightarrow>
                                 (case data ''bl_type'' of
                                    None \<Rightarrow> (Some (KeyError ''bl_type''), entry)
                                  | Some bl_type \<Rightarrow>
                                      if bl_type = PStr ''file''
                                      then (None, entry(''body'' \<mapsto> PStr (re_sub_blank r b)))
                                      else
                                        (case render_link fmt template config data entry of
                                           Inl err \<Rightarrow> (Some err, entry)
                                         | Inr link \<Rightarrow>
                                             (None, entry(''just_summary'' \<mapsto> PInt 1,
                                                ''body'' \<mapsto> PStr (py_slice_to b (match_start m 1)
                                                   @ link @ py_str (match_group m 2)))))))))))"

subsection \<open>A sample of the \<open>%\<close> operator and sample inputs\<close>

text \<open>
  For evaluating \<open>cb_story\<close> on concrete inputs: the conversions \<^verbatim>\<open>%(key)s\<close> and
  \<^verbatim>\<open>%%\<close>, which the default template and the documented variables need. A missing key is a
  \<open>KeyError\<close>, a format that ends early a \<open>ValueError\<close>; anything else is outside this
  sample (\<open>Unsupported\<close>).
\<close>

datatype fmode = FText | FPercent | FKey string | FConv pyval

definition prepend :: "string \<Rightarrow> error + string \<Rightarrow> error + string" where
  "prepend s r = (case r of Inl err \<Rightarrow> Inl err | Inr t \<Rightarrow> Inr (s @ t))"

fun format_scan :: "fmode \<Rightarrow> pydict \<Rightarrow> string \<Rightarrow> error + string" where
  "format_scan FText d [] = Inr []"
| "format_scan FText d (c # cs) =
     (if c = CHR ''%'' then format_scan FPercent d cs else prepend [c] (format_scan FText d cs))"
| "format_scan FPercent d [] = Inl ValueError"
| "format_scan FPercent d (c # cs) =
     (if c = CHR ''%'' then prepend ''%'' (format_scan FText d cs)
      else if c = CHR ''('' then format_scan (FKey []) d cs
      else Inl Unsupported)"
| "format_scan (FKey k) d [] = Inl ValueError"
| "format_scan (FKey k) d (c # cs) =
     (if c = CHR '')'' then
        (case d k of None \<Rightarrow> Inl (KeyError k) | Some v \<Rightarrow> format_scan (FConv v) d cs)
      else if c = CHR ''('' then Inl Unsupported
      else format_scan (FKey (k @ [c])) d cs)"
| "format_scan (FConv v) d [] = Inl ValueError"
| "format_scan (FConv v) d (c # cs) =
     (if c = CHR ''s'' then prepend (py_str v) (format_scan FText d cs) else Inl Unsupported)"

definition sample_format :: format_fn where
  "sample_format t d = format_scan FText d t"

definition sample_config :: pydict where
  "sample_config = [''base_url'' \<mapsto> PStr ''http://example.com'']"

definition wrapped_body :: string where
  "wrapped_body = ''<p>BREAK</p>'' @ newline # ''<p>more</p>''"

definition plain_body :: string where
  "plain_body = ''intro'' @ newline # ''BREAK'' @ newline # ''more BREAK''"

definition sample_link :: string where
  "sample_link = ''<p class=\"readmore\"><a href=\"http://example.com/first.html\">read more after the break...</a></p>''"

definition listing_data :: pydict where
  "listing_data = [''bl_type'' \<mapsto> PStr ''dir'']"

definition sample_entry :: "string \<Rightarrow> pydict" where
  "sample_entry body = [''body'' \<mapsto> PStr body, ''file_path'' \<mapsto> PStr ''first'']"

subsection \<open>The words of the claims about the splitter\<close>

text \<open>
  The marker occurs at offset \<open>k\<close> of a body when it is a prefix of the body from \<open>k\<close> on.
  \<open>first_occurrence\<close> is the least such offset, \<open>occurrences\<close> all of them.
  \<open>closing_tags_only\<close> holds of text on one line in which every \<open><\<close> opens a closing tag,
  that is, a slash follows it at once. \<open>strip_all\<close> cuts every occurrence of the marker out,
  from the left and without overlap, and \<open>count_marker\<close> counts the occurrences cut.
\<close>

definition first_occurrence :: "string \<Rightarrow> string \<Rightarrow> nat option" where
  "first_occurrence bp s = find (\<lambda>k. prefix bp (drop k s)) [0..<Suc (length s)]"

definition occurrences :: "string \<Rightarrow> string \<Rightarrow> nat list" where
  "occurrences bp s = filter (\<lambda>k. prefix bp (drop k s)) [0..<Suc (length s)]"

fun closing_tags_only :: "string \<Rightarrow> bool" where
  "closing_tags_only [] = True"
| "closing_tags_only [c] = (c \<noteq> newline \<and> c \<noteq> CHR ''<'')"
| "closing_tags_only (c # d # cs) =
     (c \<noteq> newline \<and> (if c = CHR ''<'' then d = CHR ''/'' else True) \<and> closing_tags_only (d # cs))"

function strip_all :: "string \<Rightarrow> string \<Rightarrow> string" where
  "strip_all bp [] = []"
| "strip_all bp (x # xs) =
     (if bp \<noteq> [] \<and> prefix bp (x # xs) then strip_all bp (drop (length bp) (x # xs))
      else x # strip_all bp xs)"
  by pat_completeness auto
termination
  by (relation "measure (\<lambda>(bp, s). length s)") auto

function count_marker :: "string \<Rightarrow> string \<Rightarrow> nat" where
  "count_marker bp [] = 0"
| "count_marker bp (x # xs) =
     (if bp \<noteq> [] \<and> prefix bp (x # xs) then Suc (count_marker bp (drop (length bp) (x # xs)))
      else count_marker bp xs)"
  by pat_completeness auto
termination
  by (relation "measure (\<lambda>(bp, s). length s)") auto

section \<open>Properties of the entry base class\<close>

lemma map_of_dict_set: "map_of (dict_set d k v) = (map_of d)(k \<mapsto> v)"
  by (induction d) (auto simp: fun_eq_iff)

lemma keys_dict_set:
  "map fst (dict_set d k v) = (if k \<in> set (map fst d) then map fst d else map fst d @ [k])"
  by (induction d) (auto simp: image_iff, force+)

lemma dict_ok_set: "dict_ok d \<Longrightarrow> dict_ok (dict_set d k v)"
  by (simp add: dict_ok_def keys_dict_set)

lemma dict_has_set: "dict_has (dict_set d k v) k' = (k' = k \<or> dict_has d k')"
  by (auto simp: dict_has_def keys_dict_set)

lemma setitems_data: "e_data (setitems e ws) = e_data e"
  unfolding setitems_def by (induction ws arbitrary: e) (auto simp: setitem_def)

lemma setitems_ok: "dict_ok (e_metadata e) \<Longrightarrow> dict_ok (e_metadata (setitems e ws))"
  unfolding setitems_def by (induction ws arbitrary: e) (auto simp: setitem_def dict_ok_set)

lemma setitems_has:
  "dict_has (e_metadata (setitems e ws)) k = (k \<in> fst ` set ws \<or> dict_has (e_metadata e) k)"
  unfolding setitems_def 
  by (induction ws arbitrary: e) (auto simp: setitem_def dict_has_set)

lemma count_keys:
  "dict_ok d \<Longrightarrow> count_list (map fst d) k = (if dict_has d k then 1 else 0)"
  unfolding dict_ok_def dict_has_def
  by (induction d) auto

lemma dict_del_lookup: "map_of (dict_del d k) = (map_of d)(k := None)"
  unfolding dict_del_def by (induction d) (auto simp: fun_eq_iff)

lemma dict_del_has: "dict_has (dict_del d k) k' = (k' \<noteq> k \<and> dict_has d k')"
  unfolding dict_del_def dict_has_def by auto

lemma setTime_once:
  assumes "strftime_succeeds strftime t"
  shows "fst (setTime strftime e t) = None
    \<and> e_data (snd (setTime strftime e t)) = e_data e
    \<and> map_of (e_metadata (snd (setTime strftime e t))) = map_of (e_metadata e) ++ time_fields strftime t"
proof -
  from assms obtain s1 s2 s3 s4 s5 s6 s7 s8 where
    s: "strftime ''%H:%M'' t = Inr s1" "strftime ''%b'' t = Inr s2" "strftime ''%m'' t = Inr s3"
       "strftime ''%d'' t = Inr s4" "strftime ''%Y'' t = Inr s5"
       "strftime ''%Y%m%d%H%M%S'' t = Inr s6" "strftime ''%Y-%m-%dT%H:%M:%S%Z'' t = Inr s7"
       "strftime ''%a, %d %b %Y'' t = Inr s8"
    unfolding strftime_succeeds_def by (auto split: sum.splits)
  show ?thesis
    by (simp add: setTime_def then_do_def set_strftime_def setitem_def s map_of_dict_set
        time_fields_def strftime_str_def)
qed

lemma time_fields_dom:
  "dom (time_fields strftime t) =
     {''timetuple'', ''ti'', ''mo'', ''mo_num'', ''da'', ''yr'', ''fulltime'', ''w3cdate'', ''date''}"
  by (auto simp: time_fields_def)

lemma time_fields_absorb:
  "m ++ time_fields strftime t1 ++ time_fields strftime t2 = m ++ time_fields strftime t2"
  by (rule ext) (simp add: map_add_def time_fields_def)

lemmas strftime_eval = sample_strftime_def strftime_posix_def time_in_range_def directive_def
  two_digits_def digit_char_def dec_int_def dec_nat.simps month_abbr_def day_abbr_def
  sample_time_a_def sample_time_b_def

lemmas entry_eval = setTime_def then_do_def set_strftime_def setitem_def EntryBase_init_def
  keys_def CONTENT_KEY_def getitem_def getData_def setData_def delitem_def dict_has_def
  dict_del_def dict_get_def dict_ok_def subscript_def

text \<open>
  C9. On a freshly constructed entry, whose content slot was never set, \<open>getData\<close> returns the
  string \<open>None\<close>: the default accessor is \<open>str\<close> of the empty slot.
\<close>

theorem getData_fresh: "getData EntryBase_init = ''None''"
  by (simp add: getData_def EntryBase_init_def)

text \<open>
  C7. After any sequence of metadata writes, also writes to the reserved key itself, reading
  the reserved key through \<open>__getitem__\<close> gives what \<open>getData\<close> gives at that moment, whatever
  default is passed, and the writes do not change what \<open>getData\<close> gives.
\<close>

theorem getitem_content_live:
  "getitem (setitems e ws) CONTENT_KEY dflt = Val (PStr (getData (setitems e ws)))
   \<and> getData (setitems e ws) = getData e"
  by (simp add: getitem_def getData_def setitems_data)

theorem getitem_content_live_witness:
  "getitem (setitems (setData EntryBase_init (PStr ''live'')) [(''content'', Val (PStr ''stale''))])
      CONTENT_KEY (Val PNone) = Val (PStr ''live'')
   \<and> map_of (e_metadata (setitems (setData EntryBase_init (PStr ''live''))
        [(''content'', Val (PStr ''stale''))])) CONTENT_KEY = Some (Val (PStr ''stale''))"
  using getitem_content_live [of "setData EntryBase_init (PStr ''live'')"
      "[(''content'', Val (PStr ''stale''))]" "Val PNone"]
  by (simp add: setitems_def entry_eval)

text \<open>
  C3, as the code has it. \<open>keys()\<close> appends the reserved key to the keys of the metadata, so
  the reserved key occurs once when the metadata has no such key, and twice once it was
  written through \<open>__setitem__\<close>.
\<close>

theorem keys_content_count:
  "dict_ok (e_metadata e) \<Longrightarrow>
   count_list (keys (setitems e ws)) CONTENT_KEY =
     (if CONTENT_KEY \<in> fst ` set ws \<or> dict_has (e_metadata e) CONTENT_KEY then 2 else 1)"
  using setitems_ok [of e ws] setitems_has [of e ws CONTENT_KEY]
  by (simp add: keys_def count_keys)

theorem keys_content_count_witness:
  "dict_ok (e_metadata EntryBase_init)
   \<and> count_list (keys (setitems EntryBase_init [(''title'', Val (PStr ''t''))])) CONTENT_KEY = 1
   \<and> count_list (keys (setitems EntryBase_init
         [(''title'', Val (PStr ''t'')), (''content'', Val (PStr ''c''))])) CONTENT_KEY = 2"
proof -
  have ok: "dict_ok (e_metadata EntryBase_init)"
    by (simp add: EntryBase_init_def dict_ok_def)
  show ?thesis
    using ok keys_content_count [OF ok, of "[(''title'', Val (PStr ''t''))]"]
      keys_content_count [OF ok, of "[(''title'', Val (PStr ''t'')), (''content'', Val (PStr ''c''))]"]
    by (simp add: CONTENT_KEY_def dict_has_def EntryBase_init_def)
qed

text \<open>The claim as stated fails: one write to the reserved key and \<open>keys()\<close> lists it twice.\<close>

theorem keys_content_twice_counterexample:
  "count_list (keys (setitem EntryBase_init CONTENT_KEY (Val (PStr ''x'')))) CONTENT_KEY = 2"
  by (simp add: entry_eval)

text \<open>
  C8. \<open>del e[k]\<close> succeeds exactly when \<open>k\<close> is a key of the metadata. On a missing key
  it raises \<open>KeyError\<close> and leaves the entry as it was; on a key that is present it
  removes that key and no other.
\<close>

theorem delitem_cases:
  "(fst (delitem e k) = None \<longleftrightarrow> dict_has (e_metadata e) k)
   \<and> (\<not> dict_has (e_metadata e) k \<longrightarrow> delitem e k = (Some (KeyError k), e))
   \<and> (dict_has (e_metadata e) k \<longrightarrow>
        delitem e k = (None, e\<lparr>e_metadata := dict_del (e_metadata e) k\<rparr>)
        \<and> map_of (dict_del (e_metadata e) k) = (map_of (e_metadata e))(k := None)
        \<and> \<not> dict_has (dict_del (e_metadata e) k) k)"
  by (simp add: delitem_def dict_del_lookup dict_del_has)

theorem delitem_cases_witness:
  "dict_has (e_metadata (setitem EntryBase_init ''title'' (Val (PStr ''t'')))) ''title''
   \<and> delitem (setitem EntryBase_init ''title'' (Val (PStr ''t''))) ''title'' = (None, EntryBase_init)
   \<and> \<not> dict_has (e_metadata (setitem EntryBase_init ''title'' (Val (PStr ''t'')))) ''body''
   \<and> delitem (setitem EntryBase_init ''title'' (Val (PStr ''t''))) ''body''
       = (Some (KeyError ''body''), setitem EntryBase_init ''title'' (Val (PStr ''t'')))"
proof -
  have p: "dict_has (e_metadata (setitem EntryBase_init ''title'' (Val (PStr ''t'')))) ''title''"
    by (simp add: entry_eval)
  have a: "\<not> dict_has (e_metadata (setitem EntryBase_init ''title'' (Val (PStr ''t'')))) ''body''"
    by (simp add: entry_eval)
  show ?thesis
    using p a delitem_cases [of "setitem EntryBase_init ''title'' (Val (PStr ''t''))" "''title''"]
      delitem_cases [of "setitem EntryBase_init ''title'' (Val (PStr ''t''))" "''body''"]
    by (simp add: setitem_def EntryBase_init_def dict_del_def)
qed

text \<open>
  C1, as the code has it. When \<open>strftime\<close> raises on none of the eight formats, \<open>setTime\<close>
  returns normally, stores nine keys (the time tuple itself under \<open>timetuple\<close>, and the eight
  derived strings), leaves every other key and the content slot alone, and a second call
  with another tuple leaves the metadata as one call with that tuple would: no value of
  the first call stays.
\<close>

theorem setTime_fields:
  assumes "strftime_succeeds strftime t1" and "strftime_succeeds strftime t2"
  shows "fst (setTime strftime e t1) = None
    \<and> e_data (snd (setTime strftime e t1)) = e_data e
    \<and> map_of (e_metadata (snd (setTime strftime e t1))) = map_of (e_metadata e) ++ time_fields strftime t1
    \<and> dom (time_fields strftime t1) =
        {''timetuple'', ''ti'', ''mo'', ''mo_num'', ''da'', ''yr'', ''fulltime'', ''w3cdate'', ''date''}
    \<and> fst (setTime strftime (snd (setTime strftime e t1)) t2) = None
    \<and> map_of (e_metadata (snd (setTime strftime (snd (setTime strftime e t1)) t2)))
        = map_of (e_metadata e) ++ time_fields strftime t2"
  using setTime_once [OF assms(1), of e] setTime_once [OF assms(2), of "snd (setTime strftime e t1)"]
  by (simp add: time_fields_dom time_fields_absorb)

theorem setTime_fields_witness:
  "strftime_succeeds sample_strftime sample_time_a
   \<and> strftime_succeeds sample_strftime sample_time_b
   \<and> fst (setTime sample_strftime (snd (setTime sample_strftime EntryBase_init sample_time_a))
        sample_time_b) = None
   \<and> map_of (e_metadata (snd (setTime sample_strftime
        (snd (setTime sample_strftime EntryBase_init sample_time_a)) sample_time_b))) ''ti''
      = Some (Val (PStr ''09:30''))"
proof -
  have a: "strftime_succeeds sample_strftime sample_time_a"
    by (simp add: strftime_succeeds_def strftime_eval)
  have b: "strftime_succeeds sample_strftime sample_time_b"
    by (simp add: strftime_succeeds_def strftime_eval)
  have "time_fields sample_strftime sample_time_b ''ti'' = Some (Val (PStr ''09:30''))"
    by (simp add: time_fields_def strftime_str_def strftime_eval)
  then show ?thesis
    using a b setTime_fields [OF a b, of EntryBase_init] by (simp add: map_add_def)
qed

text \<open>
  The claim as stated fails: on an empty entry \<open>setTime\<close> writes nine keys, and the value
  under \<open>timetuple\<close> is the tuple, not a string.
\<close>

theorem setTime_eight_keys_counterexample:
  "length (e_metadata (snd (setTime sample_strftime EntryBase_init sample_time_a))) = 9
   \<and> dict_has (e_metadata (snd (setTime sample_strftime EntryBase_init sample_time_a))) ''timetuple''
   \<and> map_of (e_metadata (snd (setTime sample_strftime EntryBase_init sample_time_a))) ''timetuple''
     = Some (TimeTuple sample_time_a)"
  by (simp add: entry_eval strftime_eval)

section \<open>Properties of the splitter\<close>

subsection \<open>The matcher on the pattern of \<open>cb_story\<close>\<close>

lemma lazy_star_run:
  "\<forall>x\<in>set tail. cc_match c x \<Longrightarrow>
   lazy_star c j (tail @ rest) =
     map (\<lambda>k. (j + k, drop k tail @ rest)) [0..<length tail] @ lazy_star c (j + length tail) rest"
proof (induction tail arbitrary: j)
  case Nil
  then show ?case by simp
next
  case (Cons x tail)
  have "[0..<Suc (length tail)] = 0 # map Suc [0..<length tail]"
    by (simp add: upt_conv_Cons map_Suc_upt del: upt_Suc)
  with Cons show ?case by (simp add: comp_def del: upt_Suc)
qed

lemma opening_tag_no_lt: "c \<noteq> CHR ''<'' \<Longrightarrow> rmatch opening_tag (j, c # s, g) = []"
  by (simp add: opening_tag_def)

lemma opening_tag_closing: "rmatch opening_tag (j, CHR ''<'' # CHR ''/'' # s, g) = []"
  by (simp add: opening_tag_def)

lemma delimiter_newline: "rmatch delimiter (j, newline # post, g) = [(Suc j, post, g)]"
  by (simp add: delimiter_def opening_tag_no_lt)

lemma delimiter_closing:
  "closing_tags_only (c # cs) \<Longrightarrow> rmatch delimiter (j, (c # cs) @ newline # post, g) = []"
proof (cases cs)
  case Nil
  assume "closing_tags_only (c # cs)"
  with Nil show ?thesis by (simp add: delimiter_def opening_tag_no_lt)
next
  case (Cons d ds)
  assume "closing_tags_only (c # cs)"
  with Cons show ?thesis
    by (cases "c = CHR ''<''") (simp_all add: delimiter_def opening_tag_no_lt opening_tag_closing)
qed

lemma closing_tags_tl: "closing_tags_only (c # cs) \<Longrightarrow> closing_tags_only cs"
  by (cases cs) auto

lemma closing_tags_hd: "closing_tags_only (c # cs) \<Longrightarrow> c \<noteq> newline"
  by (cases cs) auto

lemma tail_then_delimiter:
  "closing_tags_only tail \<Longrightarrow>
   concat (map (rmatch (Group 3 delimiter))
     (map (\<lambda>(j', r). (j', r, (2, b, j') # g)) (lazy_star Dot j (tail @ newline # post))))
   = [(Suc (j + length tail), post,
        (3, j + length tail, Suc (j + length tail)) # (2, b, j + length tail) # g)]"
proof (induction tail arbitrary: j)
  case Nil
  then show ?case by (simp add: delimiter_newline)
next
  case (Cons c cs)
  from Cons.prems have c: "c \<noteq> newline" and cs: "closing_tags_only cs"
    by (auto dest: closing_tags_hd closing_tags_tl)
  from Cons.prems have "rmatch delimiter (j, (c # cs) @ newline # post, (2, b, j) # g) = []"
    by (rule delimiter_closing)
  with c Cons.IH [OF cs, of "Suc j"] show ?case by simp
qed

lemma pattern_no_prefix:
  "\<not> prefix bp s \<Longrightarrow> rmatch (breakpoint_pattern (Lit bp)) (i, s, g) = []"
  by (simp add: breakpoint_pattern_def)

lemma pattern_at_marker:
  assumes "closing_tags_only tail"
  shows "rmatch (breakpoint_pattern (Lit bp)) (i, bp @ tail @ newline # post, g) =
    [(Suc (i + length bp + length tail), post,
      (3, i + length bp + length tail, Suc (i + length bp + length tail))
      # (2, i + length bp, i + length bp + length tail) # (1, i, i + length bp) # g)]"
  using tail_then_delimiter [OF assms, of "i + length bp" "(1, i, i + length bp) # g" "i + length bp" post]
  by (simp add: breakpoint_pattern_def comp_def split_def add.assoc)

lemma search_skip:
  "\<forall>k<length pre. rmatch r (i + k, drop k pre @ s, []) = [] \<Longrightarrow>
   search_from r i (pre @ s) = search_from r (i + length pre) s"
proof (induction pre arbitrary: i)
  case Nil
  then show ?case by simp
next
  case (Cons x pre)
  from Cons.prems have "rmatch r (i, (x # pre) @ s, []) = []" by force
  moreover have "\<forall>k<length pre. rmatch r (Suc i + k, drop k pre @ s, []) = []"
  proof (intro allI impI)
    fix k assume "k < length pre"
    with Cons.prems have "rmatch r (i + Suc k, drop (Suc k) (x # pre) @ s, []) = []"
      by (metis Suc_less_eq length_Cons)
    then show "rmatch r (Suc i + k, drop k pre @ s, []) = []" by simp
  qed
  ultimately show ?case using Cons.IH [of "Suc i"] by simp
qed

lemma search_none:
  "\<forall>k\<le>length s. rmatch r (i + k, drop k s, []) = [] \<Longrightarrow> search_from r i s = None"
proof (induction s arbitrary: i)
  case Nil
  then show ?case by simp
next
  case (Cons x s)
  from Cons.prems have "rmatch r (i, x # s, []) = []" by force
  moreover have "\<forall>k\<le>length s. rmatch r (Suc i + k, drop k s, []) = []"
  proof (intro allI impI)
    fix k assume "k \<le> length s"
    with Cons.prems have "rmatch r (i + Suc k, drop (Suc k) (x # s), []) = []"
      by (metis Suc_le_mono length_Cons)
    then show "rmatch r (Suc i + k, drop k s, []) = []" by simp
  qed
  ultimately show ?case using Cons.IH [of "Suc i"] by simp
qed

lemma first_occurrence_Some:
  assumes "first_occurrence bp s = Some n"
  shows "n \<le> length s \<and> prefix bp (drop n s) \<and> (\<forall>k<n. \<not> prefix bp (drop k s))"
proof -
  from assms obtain i where i: "i < Suc (length s)" "prefix bp (drop ([0..<Suc (length s)] ! i) s)"
    "n = [0..<Suc (length s)] ! i" "\<forall>j<i. \<not> prefix bp (drop ([0..<Suc (length s)] ! j) s)"
    unfolding first_occurrence_def find_Some_iff by auto
  have n: "n = i" using i(1,3) by (metis add_0 nth_upt)
  have "\<forall>k<n. \<not> prefix bp (drop k s)"
  proof (intro allI impI)
    fix k assume k: "k < n"
    then have "k < Suc (length s)" using i(1) n by simp
    then have "[0..<Suc (length s)] ! k = k" by (metis add_0 nth_upt)
    with i(4) k n show "\<not> prefix bp (drop k s)" by metis
  qed
  with i n show ?thesis by (metis add_0 less_Suc_eq_le nth_upt)
qed

lemma first_occurrence_None:
  assumes "first_occurrence bp s = None"
  shows "\<forall>k\<le>length s. \<not> prefix bp (drop k s)"
  using assms by (simp add: first_occurrence_def find_None_iff less_Suc_eq_le del: upt_Suc)

lemma find_filter: "find P xs = (case filter P xs of [] \<Rightarrow> None | x # ys \<Rightarrow> Some x)"
  by (induction xs) auto

lemma occurrences_first: "occurrences bp s = n # ns \<Longrightarrow> first_occurrence bp s = Some n"
  by (simp add: occurrences_def first_occurrence_def find_filter del: upt_Suc)

lemma sub_scan_skip: "sub_scan r i k s = sub_scan r (i + k) 0 (drop k s)"
proof (induction s arbitrary: i k)
  case Nil
  then show ?case by simp
next
  case (Cons x s)
  then show ?case by (cases k) simp_all
qed

lemma sub_scan_lit: "sub_scan (Lit bp) i 0 s = strip_all bp s"
proof (induction bp s arbitrary: i rule: strip_all.induct)
  case (1 bp)
  then show ?case by simp
next
  case (2 bp x xs)
  show ?case
  proof (cases "bp \<noteq> [] \<and> prefix bp (x # xs)")
    case True
    then obtain b bs where bp: "bp = b # bs" by (cases bp) auto
    have "sub_scan (Lit bp) (Suc i) (length bs) xs
            = sub_scan (Lit bp) (Suc i + length bs) 0 (drop (length bs) xs)"
      by (rule sub_scan_skip)
    also have "\<dots> = strip_all bp (drop (length bp) (x # xs))"
      using "2.IH"(1) [OF True] bp by simp
    finally show ?thesis using True bp by simp
  next
    case False
    with "2.IH"(2) [OF False, of "Suc i"] show ?thesis by auto
  qed
qed

lemma re_sub_blank_lit: "re_sub_blank (Lit bp) s = strip_all bp s"
  by (simp add: re_sub_blank_def sub_scan_lit)

lemma strip_all_length: "length (strip_all bp s) + count_marker bp s * length bp = length s"
proof (induction bp s rule: strip_all.induct)
  case (1 bp)
  then show ?case by simp
next
  case (2 bp x xs)
  show ?case
  proof (cases "bp \<noteq> [] \<and> prefix bp (x # xs)")
    case True
    then have "length bp \<le> length (x # xs)" using prefix_length_le by blast
    with "2.IH"(1) [OF True] True show ?thesis by simp
  next
    case False
    with "2.IH"(2) [OF False] show ?thesis by auto
  qed
qed

lemma search_at_marker:
  assumes first: "first_occurrence bp (pre @ bp @ tail @ newline # post) = Some (length pre)"
    and tail: "closing_tags_only tail"
  shows "re_search (breakpoint_pattern (Lit bp)) (pre @ bp @ tail @ newline # post) =
    Some \<lparr>m_string = pre @ bp @ tail @ newline # post,
          m_spans = [(0, length pre, Suc (length pre + length bp + length tail)),
                     (3, length pre + length bp + length tail, Suc (length pre + length bp + length tail)),
                     (2, length pre + length bp, length pre + length bp + length tail),
                     (1, length pre, length pre + length bp)]\<rparr>"
proof -
  let ?s = "bp @ tail @ newline # post"
  let ?r = "breakpoint_pattern (Lit bp)"
  have "\<forall>k<length pre. rmatch ?r (0 + k, drop k pre @ ?s, []) = []"
  proof (intro allI impI)
    fix k assume k: "k < length pre"
    with first_occurrence_Some [OF first] have "\<not> prefix bp (drop k (pre @ ?s))" by blast
    with k have "\<not> prefix bp (drop k pre @ ?s)" by simp
    then show "rmatch ?r (0 + k, drop k pre @ ?s, []) = []" by (rule pattern_no_prefix)
  qed
  then have "search_from ?r 0 (pre @ ?s) = search_from ?r (0 + length pre) ?s"
    by (rule search_skip)
  also have "\<dots> = Some [(0, length pre, Suc (length pre + length bp + length tail)),
                     (3, length pre + length bp + length tail, Suc (length pre + length bp + length tail)),
                     (2, length pre + length bp, length pre + length bp + length tail),
                     (1, length pre, length pre + length bp)]"
    using pattern_at_marker [OF tail, of bp "length pre" post "[]"]
    by (cases ?s) simp_all
  finally show ?thesis by (simp add: re_search_def)
qed

lemma group2_at_marker:
  assumes "first_occurrence bp (pre @ bp @ tail @ newline # post) = Some (length pre)"
    and "closing_tags_only tail"
  shows "map_option (\<lambda>m. match_group m 2)
           (re_search (breakpoint_pattern (Lit bp)) (pre @ bp @ tail @ newline # post))
         = Some (PStr tail)"
  using search_at_marker [OF assms] by (simp add: match_group_def)

lemma listing_split:
  assumes bp: "dict_get_default config ''readmore_breakpoint'' (PStr READMORE_BREAKPOINT) = PStr bp"
    and plain: "\<not> list_ex re_special bp"
    and body: "entry ''body'' = Some (PStr (pre @ bp @ tail @ newline # post))"
    and first: "first_occurrence bp (pre @ bp @ tail @ newline # post) = Some (length pre)"
    and tail: "closing_tags_only tail"
    and listing: "data ''bl_type'' = Some t" "t \<noteq> PStr ''file''"
    and link: "render_link fmt (dict_get_default config ''readmore_template'' (PStr READMORE_TEMPLATE))
                 config data entry = Inr link"
  shows "cb_story fmt config data entry =
    (None, entry(''just_summary'' \<mapsto> PInt 1, ''body'' \<mapsto> PStr (pre @ link @ tail)))"
  using bp plain body listing link search_at_marker [OF first tail]
  by (simp add: cb_story_def re_compile_plain_def match_start_def match_group_def py_slice_to_def)

lemmas splitter_eval = dict_get_default_def READMORE_BREAKPOINT_def READMORE_TEMPLATE_def
  re_special_def sample_config_def sample_link_def first_occurrence_def render_link_def
  sample_format_def prepend_def

lemmas search_eval = re_search_def breakpoint_pattern_def delimiter_def opening_tag_def

lemma sample_link_rendered:
  "render_link sample_format (dict_get_default sample_config ''readmore_template'' (PStr READMORE_TEMPLATE))
     sample_config listing_data (sample_entry b) = Inr sample_link"
  by (simp add: splitter_eval listing_data_def sample_entry_def)

subsection \<open>The claims\<close>

text \<open>
  C4. When the search for the pattern finds no match in the body, \<open>cb_story\<close> returns
  normally and leaves the entry as it was: the body is unchanged and no flag is set. A body
  in which the marker does not occur at all is such a body.
\<close>

theorem no_match_identity:
  assumes "dict_get_default config ''readmore_breakpoint'' (PStr READMORE_BREAKPOINT) = PStr bp"
    and "\<not> list_ex re_special bp"
    and "entry ''body'' = Some (PStr body)"
    and "re_search (breakpoint_pattern (Lit bp)) body = None \<or> first_occurrence bp body = None"
  shows "re_search (breakpoint_pattern (Lit bp)) body = None
    \<and> cb_story fmt config data entry = (None, entry)"
proof -
  have "re_search (breakpoint_pattern (Lit bp)) body = None"
  proof (cases "first_occurrence bp body = None")
    case True
    have "\<forall>k\<le>length body. rmatch (breakpoint_pattern (Lit bp)) (0 + k, drop k body, []) = []"
      using first_occurrence_None [OF True] by (simp add: pattern_no_prefix)
    then have "search_from (breakpoint_pattern (Lit bp)) 0 body = None"
      by (rule search_none)
    then show ?thesis by (simp add: re_search_def)
  next
    case False
    with assms(4) show ?thesis by simp
  qed
  with assms(1-3) show ?thesis
    by (simp add: cb_story_def re_compile_plain_def)
qed

theorem no_match_identity_witness:
  "dict_get_default Map.empty ''readmore_breakpoint'' (PStr READMORE_BREAKPOINT) = PStr ''BREAK''
   \<and> \<not> list_ex re_special ''BREAK''
   \<and> first_occurrence ''BREAK'' ''no marker here'' = None
   \<and> cb_story sample_format Map.empty [''bl_type'' \<mapsto> PStr ''dir''] [''body'' \<mapsto> PStr ''no marker here'']
       = (None, [''body'' \<mapsto> PStr ''no marker here''])"
proof -
  have a: "dict_get_default Map.empty ''readmore_breakpoint'' (PStr READMORE_BREAKPOINT) = PStr ''BREAK''"
    by (simp add: splitter_eval)
  have b: "\<not> list_ex re_special ''BREAK''"
    by (simp add: splitter_eval)
  have c: "[''body'' \<mapsto> PStr ''no marker here''] ''body'' = Some (PStr ''no marker here'')"
    by simp
  have d: "first_occurrence ''BREAK'' ''no marker here'' = None"
    by (simp add: splitter_eval)
  then have d': "re_search (breakpoint_pattern (Lit ''BREAK'')) ''no marker here'' = None
    \<or> first_occurrence ''BREAK'' ''no marker here'' = None" ..
  show ?thesis
    using a b d no_match_identity [where config = Map.empty and entry = "[''body'' \<mapsto> PStr ''no marker here'']"
        and fmt = sample_format and data = "[''bl_type'' \<mapsto> PStr ''dir'']", OF a b c d']
    by simp
qed

text \<open>
  C2, as the code has it. In single mode (\<open>bl_type\<close> is \<open>file\<close>), when the search for the
  pattern finds a match, the body becomes the body with every occurrence of the marker cut
  out (from the left, without overlap), which removes the length of the marker once for each
  occurrence counted; nothing else of the entry changes and no link is rendered.
\<close>

theorem single_strips_all:
  assumes "dict_get_default config ''readmore_breakpoint'' (PStr READMORE_BREAKPOINT) = PStr bp"
    and "\<not> list_ex re_special bp"
    and "entry ''body'' = Some (PStr body)"
    and "data ''bl_type'' = Some (PStr ''file'')"
    and "re_search (breakpoint_pattern (Lit bp)) body = Some m"
  shows "cb_story fmt config data entry = (None, entry(''body'' \<mapsto> PStr (strip_all bp body)))
    \<and> length (strip_all bp body) + count_marker bp body * length bp = length body"
  using assms by (simp add: cb_story_def re_compile_plain_def re_sub_blank_lit strip_all_length)

theorem single_strips_all_witness:
  "dict_get_default Map.empty ''readmore_breakpoint'' (PStr READMORE_BREAKPOINT) = PStr ''BREAK''
   \<and> \<not> list_ex re_special ''BREAK''
   \<and> re_search (breakpoint_pattern (Lit ''BREAK'')) plain_body
       = Some \<lparr>m_string = plain_body, m_spans = [(0, 6, 12), (3, 11, 12), (2, 11, 11), (1, 6, 11)]\<rparr>
   \<and> cb_story sample_format Map.empty [''bl_type'' \<mapsto> PStr ''file''] [''body'' \<mapsto> PStr plain_body]
       = (None, [''body'' \<mapsto> PStr (''intro'' @ newline # newline # ''more '')])
   \<and> count_marker ''BREAK'' plain_body = 2"
proof -
  have a: "dict_get_default Map.empty ''readmore_breakpoint'' (PStr READMORE_BREAKPOINT) = PStr ''BREAK''"
    by (simp add: splitter_eval)
  have b: "\<not> list_ex re_special ''BREAK''"
    by (simp add: splitter_eval)
  have c: "[''body'' \<mapsto> PStr plain_body] ''body'' = Some (PStr plain_body)"
    by simp
  have d: "[''bl_type'' \<mapsto> PStr ''file''] ''bl_type'' = Some (PStr ''file'')"
    by simp
  have e: "re_search (breakpoint_pattern (Lit ''BREAK'')) plain_body
       = Some \<lparr>m_string = plain_body, m_spans = [(0, 6, 12), (3, 11, 12), (2, 11, 11), (1, 6, 11)]\<rparr>"
    by (simp add: search_eval plain_body_def)
  have f: "strip_all ''BREAK'' plain_body = ''intro'' @ newline # newline # ''more ''"
    by (simp add: plain_body_def)
  have g: "count_marker ''BREAK'' plain_body = 2"
    by (simp add: plain_body_def)
  show ?thesis
    using a b e g single_strips_all [where config = Map.empty and entry = "[''body'' \<mapsto> PStr plain_body]"
        and data = "[''bl_type'' \<mapsto> PStr ''file'']" and fmt = sample_format, OF a b c d e] by (simp add: f)
qed

text \<open>
  The claim as stated fails: a body with one marker that no newline and no opening tag
  follows is left as it is, marker included, since the search finds no match.
\<close>

theorem single_unterminated_marker_counterexample:
  "count_marker ''BREAK'' ''intro BREAK'' = 1
   \<and> cb_story sample_format Map.empty [''bl_type'' \<mapsto> PStr ''file''] [''body'' \<mapsto> PStr ''intro BREAK'']
       = (None, [''body'' \<mapsto> PStr ''intro BREAK''])"
  by (simp add: cb_story_def re_compile_plain_def splitter_eval search_eval)

text \<open>
  C5. In listing mode, for a body with exactly one occurrence of the marker, a newline right
  after it, and a link that renders: the body becomes the text before the marker followed
  by the link and nothing else, and \<open>just_summary\<close> is set to 1.
\<close>

theorem listing_marker_newline:
  assumes "dict_get_default config ''readmore_breakpoint'' (PStr READMORE_BREAKPOINT) = PStr bp"
    and "\<not> list_ex re_special bp"
    and "entry ''body'' = Some (PStr (pre @ bp @ newline # post))"
    and "occurrences bp (pre @ bp @ newline # post) = [length pre]"
    and "data ''bl_type'' = Some t" and "t \<noteq> PStr ''file''"
    and "render_link fmt (dict_get_default config ''readmore_template'' (PStr READMORE_TEMPLATE))
           config data entry = Inr link"
  shows "cb_story fmt config data entry =
      (None, entry(''just_summary'' \<mapsto> PInt 1, ''body'' \<mapsto> PStr (pre @ link)))
    \<and> map_option (\<lambda>m. match_group m 2)
          (re_search (breakpoint_pattern (Lit bp)) (pre @ bp @ newline # post)) = Some (PStr [])"
  using listing_split [of config bp entry pre "[]" post data t fmt link] assms
    occurrences_first [OF assms(4)] group2_at_marker [of bp pre "[]" post]
  by simp

theorem listing_marker_newline_witness:
  "dict_get_default sample_config ''readmore_breakpoint'' (PStr READMORE_BREAKPOINT) = PStr ''BREAK''
   \<and> \<not> list_ex re_special ''BREAK''
   \<and> occurrences ''BREAK'' (''intro '' @ ''BREAK'' @ newline # ''more'') = [length ''intro '']
   \<and> cb_story sample_format sample_config listing_data
        (sample_entry (''intro '' @ ''BREAK'' @ newline # ''more''))
      = (None, [''body'' \<mapsto> PStr (''intro '' @ sample_link), ''file_path'' \<mapsto> PStr ''first'',
                ''just_summary'' \<mapsto> PInt 1])"
proof -
  have a: "dict_get_default sample_config ''readmore_breakpoint'' (PStr READMORE_BREAKPOINT) = PStr ''BREAK''"
    by (simp add: splitter_eval)
  have b: "\<not> list_ex re_special ''BREAK''"
    by (simp add: splitter_eval)
  have c: "sample_entry (''intro '' @ ''BREAK'' @ newline # ''more'') ''body''
      = Some (PStr (''intro '' @ ''BREAK'' @ newline # ''more''))"
    by (simp add: sample_entry_def)
  have d: "occurrences ''BREAK'' (''intro '' @ ''BREAK'' @ newline # ''more'') = [length ''intro '']"
    by (simp add: occurrences_def)
  have e: "listing_data ''bl_type'' = Some (PStr ''dir'')"
    by (simp add: listing_data_def)
  have f: "PStr ''dir'' \<noteq> PStr ''file''"
    by simp
  have "(sample_entry (''intro '' @ ''BREAK'' @ newline # ''more''))
         (''just_summary'' \<mapsto> PInt 1, ''body'' \<mapsto> PStr (''intro '' @ sample_link))
      = [''body'' \<mapsto> PStr (''intro '' @ sample_link), ''file_path'' \<mapsto> PStr ''first'',
         ''just_summary'' \<mapsto> PInt 1]"
    by (rule ext) (simp add: sample_entry_def)
  then show ?thesis
    using a b d listing_marker_newline [where config = sample_config and bp = "''BREAK''"
        and entry = "sample_entry (''intro '' @ ''BREAK'' @ newline # ''more'')"
        and pre = "''intro ''" and post = "''more''" and data = listing_data
        and fmt = sample_format and link = sample_link, OF a b c d e f sample_link_rendered]
    by simp
qed

text \<open>
  C6. In listing mode, for a body whose first marker is followed on its line by closing tags
  and then a newline, and a link that renders: the body becomes the text before the marker,
  the link, and then those closing tags.
\<close>

theorem listing_keeps_trailing_tags:
  assumes "dict_get_default config ''readmore_breakpoint'' (PStr READMORE_BREAKPOINT) = PStr bp"
    and "\<not> list_ex re_special bp"
    and "entry ''body'' = Some (PStr (pre @ bp @ tail @ newline # post))"
    and "first_occurrence bp (pre @ bp @ tail @ newline # post) = Some (length pre)"
    and "closing_tags_only tail"
    and "data ''bl_type'' = Some t" and "t \<noteq> PStr ''file''"
    and "render_link fmt (dict_get_default config ''readmore_template'' (PStr READMORE_TEMPLATE))
           config data entry = Inr link"
  shows "cb_story fmt config data entry =
      (None, entry(''just_summary'' \<mapsto> PInt 1, ''body'' \<mapsto> PStr (pre @ link @ tail)))
    \<and> map_option (\<lambda>m. match_group m 2)
          (re_search (breakpoint_pattern (Lit bp)) (pre @ bp @ tail @ newline # post))
        = Some (PStr tail)"
  using listing_split [OF assms] group2_at_marker [OF assms(4,5)] by simp

theorem listing_keeps_trailing_tags_witness:
  "dict_get_default sample_config ''readmore_breakpoint'' (PStr READMORE_BREAKPOINT) = PStr ''BREAK''
   \<and> \<not> list_ex re_special ''BREAK''
   \<and> first_occurrence ''BREAK'' (''<p>'' @ ''BREAK'' @ ''</p>'' @ newline # ''<p>more</p>'')
       = Some (length ''<p>'')
   \<and> closing_tags_only ''</p>''
   \<and> cb_story sample_format sample_config listing_data
        (sample_entry (''<p>'' @ ''BREAK'' @ ''</p>'' @ newline # ''<p>more</p>''))
      = (None, [''body'' \<mapsto> PStr (''<p>'' @ sample_link @ ''</p>''), ''file_path'' \<mapsto> PStr ''first'',
                ''just_summary'' \<mapsto> PInt 1])"
proof -
  have a: "dict_get_default sample_config ''readmore_breakpoint'' (PStr READMORE_BREAKPOINT) = PStr ''BREAK''"
    by (simp add: splitter_eval)
  have b: "\<not> list_ex re_special ''BREAK''"
    by (simp add: splitter_eval)
  have c: "sample_entry (''<p>'' @ ''BREAK'' @ ''</p>'' @ newline # ''<p>more</p>'') ''body''
      = Some (PStr (''<p>'' @ ''BREAK'' @ ''</p>'' @ newline # ''<p>more</p>''))"
    by (simp add: sample_entry_def)
  have d: "first_occurrence ''BREAK'' (''<p>'' @ ''BREAK'' @ ''</p>'' @ newline # ''<p>more</p>'')
       = Some (length ''<p>'')"
    by (simp add: splitter_eval)
  have t: "closing_tags_only ''</p>''"
    by simp
  have e: "listing_data ''bl_type'' = Some (PStr ''dir'')"
    by (simp add: listing_data_def)
  have f: "PStr ''dir'' \<noteq> PStr ''file''"
    by simp
  have "(sample_entry (''<p>'' @ ''BREAK'' @ ''</p>'' @ newline # ''<p>more</p>''))
         (''just_summary'' \<mapsto> PInt 1, ''body'' \<mapsto> PStr (''<p>'' @ sample_link @ ''</p>''))
      = [''body'' \<mapsto> PStr (''<p>'' @ sample_link @ ''</p>''), ''file_path'' \<mapsto> PStr ''first'',
         ''just_summary'' \<mapsto> PInt 1]"
    by (rule ext) (simp add: sample_entry_def)
  then show ?thesis
    using a b d t listing_keeps_trailing_tags [where config = sample_config and bp = "''BREAK''"
        and entry = "sample_entry (''<p>'' @ ''BREAK'' @ ''</p>'' @ newline # ''<p>more</p>'')"
        and pre = "''<p>''" and tail = "''</p>''" and post = "''<p>more</p>''" and data = listing_data
        and fmt = sample_format and link = sample_link, OF a b c d t e f sample_link_rendered]
    by simp
qed

text \<open>
  C10. In listing mode, when the pattern matches and the configuration has no
  \<open>base_url\<close>, \<open>cb_story\<close> raises \<open>KeyError\<close> for that key and the entry is as it was
  before the call; \<open>verify_installation\<close> does not report the missing key, it returns
  \<open>True\<close>.
\<close>

theorem listing_missing_base_url:
  assumes "dict_get_default config ''readmore_breakpoint'' (PStr READMORE_BREAKPOINT) = PStr bp"
    and "\<not> list_ex re_special bp"
    and "entry ''body'' = Some (PStr body)"
    and "re_search (breakpoint_pattern (Lit bp)) body = Some m"
    and "data ''bl_type'' = Some t" and "t \<noteq> PStr ''file''"
    and "config ''base_url'' = None"
  shows "cb_story fmt config data entry = (Some (KeyError ''base_url''), entry)
    \<and> fst (verify_installation config)"
  using assms
  by (simp add: cb_story_def re_compile_plain_def render_link_def verify_installation_def)

theorem listing_missing_base_url_witness:
  "dict_get_default Map.empty ''readmore_breakpoint'' (PStr READMORE_BREAKPOINT) = PStr ''BREAK''
   \<and> \<not> list_ex re_special ''BREAK''
   \<and> re_search (breakpoint_pattern (Lit ''BREAK'')) wrapped_body
       = Some \<lparr>m_string = wrapped_body, m_spans = [(0, 3, 13), (3, 12, 13), (2, 8, 12), (1, 3, 8)]\<rparr>
   \<and> cb_story sample_format Map.empty listing_data (sample_entry wrapped_body)
       = (Some (KeyError ''base_url''), sample_entry wrapped_body)
   \<and> verify_installation Map.empty
       = (True, [''missing optional config property '' @ [CHR 0x27] @ ''readmore_template'' @ [CHR 0x27],
                 ''missing optional config property '' @ [CHR 0x27] @ ''readmore_breakpoint'' @ [CHR 0x27]])"
proof -
  have a: "dict_get_default Map.empty ''readmore_breakpoint'' (PStr READMORE_BREAKPOINT) = PStr ''BREAK''"
    by (simp add: splitter_eval)
  have b: "\<not> list_ex re_special ''BREAK''"
    by (simp add: splitter_eval)
  have c: "sample_entry wrapped_body ''body'' = Some (PStr wrapped_body)"
    by (simp add: sample_entry_def)
  have d: "re_search (breakpoint_pattern (Lit ''BREAK'')) wrapped_body
       = Some \<lparr>m_string = wrapped_body, m_spans = [(0, 3, 13), (3, 12, 13), (2, 8, 12), (1, 3, 8)]\<rparr>"
    by (simp add: search_eval wrapped_body_def)
  have e: "listing_data ''bl_type'' = Some (PStr ''dir'')"
    by (simp add: listing_data_def)
  have f: "PStr ''dir'' \<noteq> PStr ''file''"
    by simp
  have g: "(Map.empty :: pydict) ''base_url'' = None"
    by simp
  show ?thesis
    using a b d listing_missing_base_url [where config = Map.empty and bp = "''BREAK''"
        and entry = "sample_entry wrapped_body" and data = listing_data and fmt = sample_format,
        OF a b c d e f g]
    by (simp add: verify_installation_def)
qed

end
